theory Spec2Isabelle
  imports Main
begin

section \<open>Device actions of the launcher: data model\<close>

text \<open>
  The development follows \<^verbatim>\<open>src/legacy/app/actions/deviceActions.js\<close>. The module keeps
  two variables (\<^verbatim>\<open>hotplugTaskId\<close> and \<^verbatim>\<open>deviceSetupCallback\<close>), hands action objects
  to the \<^verbatim>\<open>dispatch\<close> function of a store, writes to a logger and calls a device library.
  All of these become fields of one explicit state record that every operation takes and
  returns.
\<close>

subsection \<open>JavaScript values and errors\<close>

text \<open>
  The user's input is documented as \<^verbatim>\<open>Boolean|String\<close> and may be absent. Truthiness is
  the one of JavaScript: \<^verbatim>\<open>undefined\<close>, \<^verbatim>\<open>null\<close>, \<^verbatim>\<open>false\<close> and the empty string are
  falsy.
\<close>

datatype jsval = JSUndefined | JSNull | JSBool bool | JSString string

fun truthy :: "jsval \<Rightarrow> bool" where
  "truthy JSUndefined = False"
| "truthy JSNull = False"
| "truthy (JSBool b) = b"
| "truthy (JSString s) = (s \<noteq> [])"

text \<open>
  JavaScript can throw any value, and a \<^verbatim>\<open>catch\<close> block or a rejected promise receives
  whatever was thrown:
  \<^item> \<open>Error m\<close>: an object whose \<^verbatim>\<open>message\<close> is the string \<open>m\<close> (every \<^verbatim>\<open>new Error(m)\<close>);
  \<^item> \<open>NonError v\<close>: a value that is no object (\<^verbatim>\<open>throw undefined\<close>,
    \<^verbatim>\<open>Promise.reject()\<close>, \<^verbatim>\<open>throw 'text'\<close>);
  \<^item> \<open>TypeError\<close>: the error the engine raises when a property of \<^verbatim>\<open>undefined\<close> or
    \<^verbatim>\<open>null\<close> is read.
\<close>

datatype jsError = Error string | NonError jsval | TypeError

text \<open>
  Reading \<^verbatim>\<open>error.message\<close>, as the module's three \<^verbatim>\<open>catch\<close> blocks do inside a template
  literal. On \<^verbatim>\<open>undefined\<close> and \<^verbatim>\<open>null\<close> the read raises (\<open>Inl\<close>); on a boolean or a string
  the property is \<^verbatim>\<open>undefined\<close>, which the template prints as \<^verbatim>\<open>undefined\<close>. The engine's own
  \<open>TypeError\<close> is an error object; its message is the engine's wording.
\<close>

fun error_message :: "jsError \<Rightarrow> jsError + string" where
  "error_message (Error m) = Inr m"
| "error_message (NonError JSUndefined) = Inl TypeError"
| "error_message (NonError JSNull) = Inl TypeError"
| "error_message (NonError (JSBool b)) = Inr ''undefined''"
| "error_message (NonError (JSString t)) = Inr ''undefined''"
| "error_message TypeError = Inr ''Cannot read property 'message' of undefined''"

definition messageReadable :: "jsError \<Rightarrow> bool" where
  "messageReadable error = (case error_message error of Inl raised \<Rightarrow> False | Inr msg \<Rightarrow> True)"

text \<open>
  A promise is pending, resolved with a value, or rejected with an error. The same type
  describes what an awaited call of the environment does: it may never settle.
\<close>

datatype 'a promiseState =
    is_Pending: Pending
  | is_Resolved: Resolved 'a
  | is_Rejected: Rejected jsError

subsection \<open>Devices\<close>

datatype jlinkInfo = JLink (jlinkBoardVersion: "string option")

record rawDevice =
  serialNumber :: string
  serialPorts :: "string list option"
  jlink :: "jlinkInfo option"

record device = rawDevice +
  boardVersion :: "string option"
  serialport :: "string option"

text \<open>
  \<^verbatim>\<open>wrapDevice\<close>: the keys are camel-cased by the library function \<^verbatim>\<open>camelcaseKeys\<close>
  (a parameter here), all fields are kept, and \<^verbatim>\<open>boardVersion\<close> and \<^verbatim>\<open>serialport\<close> are
  added. An empty array is truthy in JavaScript and its element 0 is \<^verbatim>\<open>undefined\<close>.
\<close>

definition wrapDevice :: "('r \<Rightarrow> rawDevice) \<Rightarrow> 'r \<Rightarrow> device" where
  "wrapDevice camelcaseKeys dev =
     (let outputDevice = camelcaseKeys dev;
          port = (case serialPorts outputDevice of
                    Some ports \<Rightarrow> (case ports of [] \<Rightarrow> None | p # _ \<Rightarrow> Some p)
                  | None \<Rightarrow> None)
      in \<lparr> serialNumber = serialNumber outputDevice,
           serialPorts = serialPorts outputDevice,
           jlink = jlink outputDevice,
           boardVersion = (case jlink outputDevice of
                             Some j \<Rightarrow> jlinkBoardVersion j
                           | None \<Rightarrow> None),
           serialport = port \<rparr>)"

definition wrapDevices :: "('r \<Rightarrow> rawDevice) \<Rightarrow> 'r list \<Rightarrow> device list" where
  "wrapDevices camelcaseKeys devices = map (wrapDevice camelcaseKeys) devices"

subsection \<open>Actions\<close>

text \<open>
  One constructor for each action object the module builds
  (\<^verbatim>\<open>deviceSelectedAction\<close>, \<^verbatim>\<open>deselectDevice\<close>, \<^verbatim>\<open>deviceSetupCompleteAction\<close>,
  \<^verbatim>\<open>deviceSetupErrorAction\<close>, \<^verbatim>\<open>deviceSetupInputRequiredAction\<close>,
  \<^verbatim>\<open>deviceSetupInputReceivedAction\<close>, \<^verbatim>\<open>devicesDetectedAction\<close>), named by its
  \<^verbatim>\<open>type\<close> and carrying its payload.
\<close>

datatype action =
    DEVICE_SELECTED device
  | DEVICE_DESELECTED
  | DEVICE_SETUP_COMPLETE device
  | DEVICE_SETUP_ERROR device jsError
  | DEVICE_SETUP_INPUT_REQUIRED string "string list option"
  | DEVICE_SETUP_INPUT_RECEIVED jsval
  | DEVICES_DETECTED "device list"

subsection \<open>State\<close>

text \<open>
  The closure stored in \<^verbatim>\<open>deviceSetupCallback\<close> captures the \<^verbatim>\<open>choices\<close> of the request
  that created it, together with the \<^verbatim>\<open>resolve\<close> and \<^verbatim>\<open>reject\<close> of that request's promise.
\<close>

datatype callback = Callback (choices: "string list option")

datatype providerCall =
    Enumerate
  | StartHotplugEvents
  | StopHotplugEvents "nat option"

text \<open>
  \<^item> \<open>hotplugTaskId\<close>, \<open>deviceSetupCallback\<close>: the two module variables;
  \<^item> \<open>dispatched\<close>: every action handed to \<^verbatim>\<open>dispatch\<close>, in order;
  \<^item> \<open>selectedSerialNumber\<close>: the store's \<^verbatim>\<open>device.selectedSerialNumber\<close>, read through
    \<^verbatim>\<open>getState\<close>;
  \<^item> \<open>errorLog\<close>: the messages given to \<^verbatim>\<open>logger.error\<close>;
  \<^item> \<open>settled\<close>: the settlements of input promises made by callbacks, in order;
  \<^item> \<open>providerCalls\<close>: the calls made to the device library, in order;
  \<^item> \<open>subscriptions\<close>: the hotplug task ids the library has handed out and that have not
    been stopped since;
  \<^item> \<open>unhandledRejections\<close>: the errors with which promises that nothing awaits were
    rejected (the promise of the thunk of \<^verbatim>\<open>startWatchingDevices\<close>).
\<close>

record state =
  hotplugTaskId :: "nat option"
  deviceSetupCallback :: "callback option"
  dispatched :: "action list"
  selectedSerialNumber :: "string option"
  errorLog :: "string list"
  settled :: "jsval promiseState list"
  providerCalls :: "providerCall list"
  subscriptions :: "nat list"
  unhandledRejections :: "jsError list"

definition initialState :: state where
  "initialState =
     \<lparr> hotplugTaskId = None, deviceSetupCallback = None, dispatched = [],
       selectedSerialNumber = None, errorLog = [], settled = [],
       providerCalls = [], subscriptions = [], unhandledRejections = [] \<rparr>"

section \<open>The store and the logger\<close>

text \<open>
  Modelled from the spec: the store's reducer for the selection is not among the sources.
  Section 4.1 of the specification gives it: \<^verbatim>\<open>select(device)\<close> sets the selected serial
  id without validating membership, \<^verbatim>\<open>deselect()\<close> clears it unconditionally; no other
  notification touches the selection.
\<close>

definition selectionReducer :: "action \<Rightarrow> string option \<Rightarrow> string option" where
  "selectionReducer a sel =
     (case a of
        DEVICE_SELECTED d \<Rightarrow> Some (serialNumber d)
      | DEVICE_DESELECTED \<Rightarrow> None
      | _ \<Rightarrow> sel)"

text \<open>
  \<^verbatim>\<open>dispatch(action)\<close> with an action object: the action is recorded and reduced.
\<close>

definition dispatch :: "action \<Rightarrow> state \<Rightarrow> state" where
  "dispatch a st =
     st\<lparr> dispatched := dispatched st @ [a],
         selectedSerialNumber := selectionReducer a (selectedSerialNumber st) \<rparr>"

definition logger_error :: "string \<Rightarrow> state \<Rightarrow> state" where
  "logger_error msg st = st\<lparr> errorLog := errorLog st @ [msg] \<rparr>"

section \<open>The input channel\<close>

text \<open>
  The body of the closure assigned to \<^verbatim>\<open>deviceSetupCallback\<close>:
  \<^verbatim>\<open>
  choice => {
      if (!choices) { resolve(!!choice); }
      else if (choice) { resolve(choice); }
      else { reject(new Error('Cancelled by user.')); }
  }
  \<close>
  \<^verbatim>\<open>!choices\<close> holds exactly when no array was passed: an empty array is truthy.
\<close>

fun deviceSetupCallback_invoke :: "callback \<Rightarrow> jsval \<Rightarrow> jsval promiseState" where
  "deviceSetupCallback_invoke (Callback cs) choice =
     (if cs = None then Resolved (JSBool (truthy choice))
      else if truthy choice then Resolved choice
      else Rejected (Error ''Cancelled by user.''))"

text \<open>
  \<^verbatim>\<open>getDeviceSetupUserInput(dispatch)(message, choices)\<close>: the promise's executor runs at
  once; it stores the closure, overwriting the slot, and dispatches the request.
\<close>

definition getDeviceSetupUserInput :: "string \<Rightarrow> string list option \<Rightarrow> state \<Rightarrow> state" where
  "getDeviceSetupUserInput msg cs st =
     dispatch (DEVICE_SETUP_INPUT_REQUIRED msg cs)
       (st\<lparr> deviceSetupCallback := Some (Callback cs) \<rparr>)"

text \<open>
  \<^verbatim>\<open>deviceSetupInputReceived(input)\<close>, the thunk run by the store:
  \<^verbatim>\<open>
  dispatch(deviceSetupInputReceivedAction(input));
  if (deviceSetupCallback) {
      deviceSetupCallback(input);
      deviceSetupCallback = undefined;
  } else {
      logger.error('Received device setup input, but no callback exists.');
  }
  \<close>
\<close>

definition deviceSetupInputReceived :: "jsval \<Rightarrow> state \<Rightarrow> state" where
  "deviceSetupInputReceived input st =
     (let st1 = dispatch (DEVICE_SETUP_INPUT_RECEIVED input) st
      in case deviceSetupCallback st1 of
           Some cb \<Rightarrow>
             st1\<lparr> settled := settled st1 @ [deviceSetupCallback_invoke cb input],
                  deviceSetupCallback := None \<rparr>
         | None \<Rightarrow>
             logger_error ''Received device setup input, but no callback exists.'' st1)"

section \<open>The hotplug watcher\<close>

text \<open>
  What the module cannot decide is a parameter:
  \<^item> \<open>deviceLibContext\<close>: whether the module constant obtained from
    \<^verbatim>\<open>getDeviceLibContext()\<close> is truthy;
  \<^item> \<open>stopHotplugEventsThrows\<close>: whether \<^verbatim>\<open>nrfDeviceLib.stopHotplugEvents\<close> throws, given
    the task id it is called with and the live subscriptions;
  \<^item> \<open>dispatchUndefinedThrows\<close>: whether the store throws when \<^verbatim>\<open>dispatch\<close> is handed
    \<^verbatim>\<open>undefined\<close>. \<^verbatim>\<open>stopWatchingDevices()\<close> does its work when called and returns no
    value, so \<^verbatim>\<open>dispatch(stopWatchingDevices())\<close> hands the store \<^verbatim>\<open>undefined\<close>.
\<close>

record env =
  deviceLibContext :: bool
  stopHotplugEventsThrows :: "nat option \<Rightarrow> nat list \<Rightarrow> jsError option"
  dispatchUndefinedThrows :: "jsError option"

text \<open>
  The library call \<^verbatim>\<open>nrfDeviceLib.stopHotplugEvents(taskId)\<close>: it is recorded; either it
  throws, or the subscription with that id is gone afterwards. A synchronous function
  returns \<open>Inr\<close> of the state, or \<open>Inl\<close> of the error thrown and the state at the throw.
\<close>

definition stopHotplugEvents :: "env \<Rightarrow> nat option \<Rightarrow> state \<Rightarrow> (jsError \<times> state) + state" where
  "stopHotplugEvents env taskId st =
     (let st1 = st\<lparr> providerCalls := providerCalls st @ [StopHotplugEvents taskId] \<rparr>
      in case stopHotplugEventsThrows env taskId (subscriptions st) of
           Some error \<Rightarrow> Inl (error, st1)
         | None \<Rightarrow>
             Inr (st1\<lparr> subscriptions :=
                         (case taskId of
                            None \<Rightarrow> subscriptions st1
                          | Some h \<Rightarrow> removeAll h (subscriptions st1)) \<rparr>))"

text \<open>
  The library call \<^verbatim>\<open>nrfDeviceLib.startHotplugEvents(...)\<close>; what it does (throw, or
  return a task id) is the argument \<open>started\<close>.
\<close>

definition startHotplugEvents :: "jsError + nat \<Rightarrow> state \<Rightarrow> (jsError \<times> state) + (nat \<times> state)" where
  "startHotplugEvents started st =
     (let st1 = st\<lparr> providerCalls := providerCalls st @ [StartHotplugEvents] \<rparr>
      in case started of
           Inl error \<Rightarrow> Inl (error, st1)
         | Inr h \<Rightarrow> Inr (h, st1\<lparr> subscriptions := subscriptions st1 @ [h] \<rparr>))"

text \<open>
  \<^verbatim>\<open>
  export const stopWatchingDevices = () => {
      if (deviceLibContext) {
          try { nrfDeviceLib.stopHotplugEvents(hotplugTaskId); }
          catch (error) {
              logger.error(`Error while stop watching devices: ${error.message}`);
          }
      }
  };
  \<close>
  The variable \<^verbatim>\<open>hotplugTaskId\<close> is not reset. The template literal is evaluated before
  \<^verbatim>\<open>logger.error\<close> is called: when reading \<^verbatim>\<open>error.message\<close> raises, nothing is logged and
  the \<^verbatim>\<open>TypeError\<close> leaves the function.
\<close>

definition stopWatchingDevices :: "env \<Rightarrow> state \<Rightarrow> (jsError \<times> state) + state" where
  "stopWatchingDevices env st =
     (if deviceLibContext env then
        (case stopHotplugEvents env (hotplugTaskId st) st of
           Inl (error, st1) \<Rightarrow>
             (case error_message error of
                Inl raised \<Rightarrow> Inl (raised, st1)
              | Inr msg \<Rightarrow>
                  Inr (logger_error (''Error while stop watching devices: '' @ msg) st1))
         | Inr st1 \<Rightarrow> Inr st1)
      else Inr st)"


text \<open>
  Whatever the library throws at a stop made in this state has a message that can be read
  (trivially so when the library does not throw, or is not called).
\<close>

definition stopErrorReadable :: "env \<Rightarrow> state \<Rightarrow> bool" where
  "stopErrorReadable env st =
     (if deviceLibContext env then
        (case stopHotplugEventsThrows env (hotplugTaskId st) (subscriptions st) of
           None \<Rightarrow> True
         | Some error \<Rightarrow> messageReadable error)
      else True)"

text \<open>
  \<^verbatim>\<open>updateDeviceList\<close> is asynchronous. Up to its \<^verbatim>\<open>await\<close> it calls
  \<^verbatim>\<open>nrfDeviceLib.enumerate\<close>; it continues when the enumeration has settled, with the
  error or with the devices found (the argument \<open>enumerated\<close>):
  \<^verbatim>\<open>
  const { device } = getState();
  if (device?.selectedSerialNumber != null &&
      !devices.find(d => d.serialNumber === device.selectedSerialNumber)) {
      dispatch(deselectDevice());
  }
  dispatch(devicesDetectedAction(devices));
  \<close>
\<close>

definition updateDeviceList_call :: "state \<Rightarrow> state" where
  "updateDeviceList_call st = st\<lparr> providerCalls := providerCalls st @ [Enumerate] \<rparr>"

definition updateDeviceList_continue ::
  "('r \<Rightarrow> rawDevice) \<Rightarrow> jsError + 'r list \<Rightarrow> state \<Rightarrow> (jsError \<times> state) + state" where
  "updateDeviceList_continue camelcaseKeys enumerated st =
     (case enumerated of
        Inl error \<Rightarrow> Inl (error, st)
      | Inr found \<Rightarrow>
          (let devices = wrapDevices camelcaseKeys found;
               st1 = (case selectedSerialNumber st of
                        None \<Rightarrow> st
                      | Some selected \<Rightarrow>
                          (if find (\<lambda>d. serialNumber d = selected) devices = None
                           then dispatch DEVICE_DESELECTED st
                           else st))
           in Inr (dispatch (DEVICES_DETECTED devices) st1)))"

text \<open>
  \<^verbatim>\<open>startWatchingDevices()\<close> returns an asynchronous thunk:
  \<^verbatim>\<open>
  try {
      await updateDeviceList();
      hotplugTaskId = nrfDeviceLib.startHotplugEvents(deviceLibContext, () => {}, updateDeviceList);
  } catch (error) {
      logger.error(`Error while probing devices: ${error.message}`);
  }
  \<close>
  The source documents each thunk as a function that can be passed to \<^verbatim>\<open>dispatch\<close>: the
  store calls it with \<^verbatim>\<open>dispatch\<close> and \<^verbatim>\<open>getState\<close>. Nothing awaits the promise of this one.
  \<open>startWatchingDevices_begin\<close> is what \<^verbatim>\<open>dispatch(startWatchingDevices())\<close> does before it
  returns to its caller (the thunk runs up to the \<^verbatim>\<open>await\<close>);
  \<open>startWatchingDevices_continue\<close> is the rest, run once the enumeration has settled.
  \<open>startWatchingDevices\<close> is one whole start with nothing in between. \<open>probingFailed\<close> is
  the \<^verbatim>\<open>catch\<close> block: when reading \<^verbatim>\<open>error.message\<close> raises, the thunk's promise is rejected
  and nothing is logged.
\<close>

definition probingFailed :: "jsError \<Rightarrow> state \<Rightarrow> state" where
  "probingFailed error st =
     (case error_message error of
        Inl raised \<Rightarrow> st\<lparr> unhandledRejections := unhandledRejections st @ [raised] \<rparr>
      | Inr msg \<Rightarrow> logger_error (''Error while probing devices: '' @ msg) st)"

definition startWatchingDevices_begin :: "state \<Rightarrow> state" where
  "startWatchingDevices_begin st = updateDeviceList_call st"

definition startWatchingDevices_continue ::
  "('r \<Rightarrow> rawDevice) \<Rightarrow> jsError + 'r list \<Rightarrow> jsError + nat \<Rightarrow> state \<Rightarrow> state" where
  "startWatchingDevices_continue camelcaseKeys enumerated started st =
     (case updateDeviceList_continue camelcaseKeys enumerated st of
        Inl (error, st1) \<Rightarrow> probingFailed error st1
      | Inr st1 \<Rightarrow>
          (case startHotplugEvents started st1 of
             Inl (error, st2) \<Rightarrow> probingFailed error st2
           | Inr (h, st2) \<Rightarrow> st2\<lparr> hotplugTaskId := Some h \<rparr>))"

definition startWatchingDevices ::
  "('r \<Rightarrow> rawDevice) \<Rightarrow> jsError + 'r list \<Rightarrow> jsError + nat \<Rightarrow> state \<Rightarrow> state" where
  "startWatchingDevices camelcaseKeys enumerated started st =
     startWatchingDevices_continue camelcaseKeys enumerated started
       (startWatchingDevices_begin st)"

section \<open>Selecting and setting up a device\<close>

text \<open>
  The application's configuration, as far as this module reads it: \<^verbatim>\<open>config.deviceSetup\<close>
  (absent, or an object whose key \<^verbatim>\<open>allowCustomDevice\<close> may be absent) and
  \<^verbatim>\<open>config.releaseCurrentDevice\<close> (absent, or a function whose awaited call resolves,
  rejects or never settles).
\<close>

record deviceSetupOptions =
  allowCustomDevice :: "jsval option"

record appConfig =
  deviceSetup :: "deviceSetupOptions option"
  releaseCurrentDevice :: "unit promiseState option"

text \<open>
  \<^verbatim>\<open>{ ..., allowCustomDevice: false, ...config.deviceSetup }\<close>: a key of
  \<^verbatim>\<open>config.deviceSetup\<close> overrides the default.
\<close>

definition deviceSetupConfig_allowCustomDevice :: "deviceSetupOptions \<Rightarrow> jsval" where
  "deviceSetupConfig_allowCustomDevice opts =
     (case allowCustomDevice opts of None \<Rightarrow> JSBool False | Some v \<Rightarrow> v)"

text \<open>
  \<^verbatim>\<open>prepareDevice(device, deviceSetupConfig)\<close> belongs to another package. Seen from this
  module it asks for input through \<^verbatim>\<open>promiseConfirm\<close> or \<^verbatim>\<open>promiseChoice\<close> (both are
  \<^verbatim>\<open>getDeviceSetupUserInput(dispatch)\<close>) any number of times, each time going on with the
  settlement of the request, and ends by resolving with the prepared device, rejecting, or
  never settling.
\<close>

datatype setupProcedure =
    Finish "device promiseState"
  | Prompt string "string list option" "jsval promiseState \<Rightarrow> setupProcedure"

text \<open>
  Running the procedure against the input channel. \<open>inputs\<close> are the values the user
  gives through \<^verbatim>\<open>deviceSetupInputReceived\<close>, one for each request, in order; when they
  run out the request stays pending and so does the setup. The procedure goes on with the
  settlement that the closure of its own request makes; it does so after
  \<^verbatim>\<open>deviceSetupInputReceived\<close> has returned, since a settled promise wakes its waiter
  later, so the slot is already cleared when the next request fills it.
\<close>

primrec prepareDevice ::
  "setupProcedure \<Rightarrow> jsval list \<Rightarrow> state \<Rightarrow> device promiseState \<times> state" where
  "prepareDevice (Finish result) = (\<lambda>inputs st. (result, st))"
| "prepareDevice (Prompt msg cs continue) =
     (\<lambda>inputs st.
        let st1 = getDeviceSetupUserInput msg cs st
        in case inputs of
             [] \<Rightarrow> (Pending, st1)
           | input # rest \<Rightarrow>
               prepareDevice (continue (deviceSetupCallback_invoke (Callback cs) input))
                 rest (deviceSetupInputReceived input st1))"

text \<open>
  The \<^verbatim>\<open>try\<close>/\<^verbatim>\<open>catch\<close> of \<^verbatim>\<open>selectAndSetupDevice\<close>:
  \<^verbatim>\<open>
  try {
      const preparedDevice = await prepareDevice(device, deviceSetupConfig);
      dispatch(startWatchingDevices());
      dispatch(deviceSetupCompleteAction(preparedDevice));
  } catch (error) {
      dispatch(deviceSetupErrorAction(device, error));
      if (!deviceSetupConfig.allowCustomDevice) {
          logger.error(`Error while setting up device ${device.serialNumber}: ${error.message}`);
          dispatch(deselectDevice());
      }
      dispatch(startWatchingDevices());
  }
  \<close>
  The value caught is whatever the procedure rejected with. When reading its
  \<^verbatim>\<open>message\<close> raises inside the \<^verbatim>\<open>catch\<close> block, the rest of the block is skipped and the
  thunk's promise is rejected with the \<^verbatim>\<open>TypeError\<close>.
\<close>

definition setupDevice ::
  "deviceSetupOptions \<Rightarrow> setupProcedure \<Rightarrow> jsval list \<Rightarrow> device \<Rightarrow> state
     \<Rightarrow> unit promiseState \<times> state" where
  "setupDevice opts procedure inputs dev st =
     (case prepareDevice procedure inputs st of
        (Pending, st1) \<Rightarrow> (Pending, st1)
      | (Resolved preparedDevice, st1) \<Rightarrow>
          (Resolved (),
             dispatch (DEVICE_SETUP_COMPLETE preparedDevice) (startWatchingDevices_begin st1))
      | (Rejected error, st1) \<Rightarrow>
          (let st2 = dispatch (DEVICE_SETUP_ERROR dev error) st1
           in if \<not> truthy (deviceSetupConfig_allowCustomDevice opts) then
                (case error_message error of
                   Inl raised \<Rightarrow> (Rejected raised, st2)
                 | Inr msg \<Rightarrow>
                     (Resolved (),
                      startWatchingDevices_begin
                        (dispatch DEVICE_DESELECTED
                           (logger_error
                              (''Error while setting up device '' @ serialNumber dev
                                 @ '': '' @ msg) st2))))
              else (Resolved (), startWatchingDevices_begin st2)))"

text \<open>
  \<^verbatim>\<open>selectAndSetupDevice(device)\<close>, the asynchronous thunk run by the store. The result is
  the state of the promise it returns and the state of the world at that point.
  \<^verbatim>\<open>
  dispatch(deviceSelectedAction(device));
  const config = getAppConfig();
  if (config.deviceSetup) {
      dispatch(stopWatchingDevices());
      if (config.releaseCurrentDevice) { await config.releaseCurrentDevice(); }
      const deviceSetupConfig = { ... };
      try { ... } catch (error) { ... }
  }
  \<close>
\<close>

definition selectAndSetupDevice ::
  "env \<Rightarrow> appConfig \<Rightarrow> setupProcedure \<Rightarrow> jsval list \<Rightarrow> device \<Rightarrow> state
     \<Rightarrow> unit promiseState \<times> state" where
  "selectAndSetupDevice env config procedure inputs dev st =
     (let st1 = dispatch (DEVICE_SELECTED dev) st
      in case deviceSetup config of
           None \<Rightarrow> (Resolved (), st1)
         | Some opts \<Rightarrow>
             (case stopWatchingDevices env st1 of
                Inl (error, st2) \<Rightarrow> (Rejected error, st2)
              | Inr st2 \<Rightarrow>
                  (case dispatchUndefinedThrows env of
                     Some error \<Rightarrow> (Rejected error, st2)
                   | None \<Rightarrow>
                       (case releaseCurrentDevice config of
                          None \<Rightarrow> setupDevice opts procedure inputs dev st2
                        | Some Pending \<Rightarrow> (Pending, st2)
                        | Some (Rejected error) \<Rightarrow> (Rejected error, st2)
                        | Some (Resolved _) \<Rightarrow>
                            setupDevice opts procedure inputs dev st2))))"

section \<open>What a run of the setup procedure shows\<close>

text \<open>
  Two observers of a setup procedure and the user's inputs, used to state properties of
  \<open>prepareDevice\<close>: how the procedure ends, and the actions its requests and the answers
  to them put on the store.
\<close>

primrec procedureOutcome :: "setupProcedure \<Rightarrow> jsval list \<Rightarrow> device promiseState" where
  "procedureOutcome (Finish result) = (\<lambda>inputs. result)"
| "procedureOutcome (Prompt msg cs continue) =
     (\<lambda>inputs.
        case inputs of
          [] \<Rightarrow> Pending
        | input # rest \<Rightarrow>
            procedureOutcome (continue (deviceSetupCallback_invoke (Callback cs) input)) rest)"

primrec promptActions :: "setupProcedure \<Rightarrow> jsval list \<Rightarrow> action list" where
  "promptActions (Finish result) = (\<lambda>inputs. [])"
| "promptActions (Prompt msg cs continue) =
     (\<lambda>inputs.
        DEVICE_SETUP_INPUT_REQUIRED msg cs #
        (case inputs of
           [] \<Rightarrow> []
         | input # rest \<Rightarrow>
             DEVICE_SETUP_INPUT_RECEIVED input #
             promptActions (continue (deviceSetupCallback_invoke (Callback cs) input)) rest))"

section \<open>Sample inputs\<close>

definition deviceA :: device where
  "deviceA = \<lparr> serialNumber = ''A'', serialPorts = None, jlink = None,
               boardVersion = None, serialport = None \<rparr>"

definition rawB :: rawDevice where
  "rawB = \<lparr> serialNumber = ''B'', serialPorts = Some [''COM3''],
            jlink = Some (JLink (Some ''PCA10056'')) \<rparr>"

text \<open>A library that never throws and a store that accepts \<^verbatim>\<open>undefined\<close>.\<close>

definition quietEnv :: env where
  "quietEnv = \<lparr> deviceLibContext = True,
                stopHotplugEventsThrows = (\<lambda>taskId live. None),
                dispatchUndefinedThrows = None \<rparr>"


text \<open>The watcher is running with task id 1.\<close>

definition watchingState :: state where
  "watchingState = initialState\<lparr> hotplugTaskId := Some 1, subscriptions := [1] \<rparr>"

text \<open>A setup is configured and the release step rejects.\<close>

definition releaseFailsConfig :: appConfig where
  "releaseFailsConfig =
     \<lparr> deviceSetup = Some \<lparr> allowCustomDevice = None \<rparr>,
       releaseCurrentDevice = Some (Rejected (Error ''port busy'')) \<rparr>"


definition noSetupConfig :: appConfig where
  "noSetupConfig = \<lparr> deviceSetup = None, releaseCurrentDevice = Some (Resolved ()) \<rparr>"

text \<open>
  The procedure of the specification's scenario C: it asks for a mode and then fails.
\<close>

definition flashFails :: setupProcedure where
  "flashFails =
     Prompt ''Pick mode'' (Some [''DFU'', ''Normal''])
       (\<lambda>answer. Finish (Rejected (Error ''flash failed'')))"


section \<open>Properties of the input channel\<close>

lemma dispatch_fields:
  "hotplugTaskId (dispatch a st) = hotplugTaskId st"
  "deviceSetupCallback (dispatch a st) = deviceSetupCallback st"
  "dispatched (dispatch a st) = dispatched st @ [a]"
  "errorLog (dispatch a st) = errorLog st"
  "settled (dispatch a st) = settled st"
  "providerCalls (dispatch a st) = providerCalls st"
  "subscriptions (dispatch a st) = subscriptions st"
  by (simp_all add: dispatch_def)

lemma deviceSetupInputReceived_pending:
  assumes "deviceSetupCallback st = Some cb"
  shows "deviceSetupInputReceived input st =
           (dispatch (DEVICE_SETUP_INPUT_RECEIVED input) st)
             \<lparr> settled := settled st @ [deviceSetupCallback_invoke cb input],
               deviceSetupCallback := None \<rparr>"
  using assms by (simp add: deviceSetupInputReceived_def Let_def dispatch_fields)

lemma deviceSetupInputReceived_idle:
  assumes "deviceSetupCallback st = None"
  shows "deviceSetupInputReceived input st =
           logger_error ''Received device setup input, but no callback exists.''
             (dispatch (DEVICE_SETUP_INPUT_RECEIVED input) st)"
  using assms by (simp add: deviceSetupInputReceived_def Let_def dispatch_fields)

text \<open>
  C10. A pending callback is invoked at most once. When \<^verbatim>\<open>deviceSetupInputReceived\<close>
  finds a callback, it settles exactly one response with it and leaves the slot empty; a
  second input with no request in between settles nothing and logs the missing callback.
\<close>

theorem deviceSetupCallback_invoked_once:
  assumes "deviceSetupCallback st = Some cb"
  shows "deviceSetupCallback (deviceSetupInputReceived i1 st) = None
       \<and> settled (deviceSetupInputReceived i1 st)
           = settled st @ [deviceSetupCallback_invoke cb i1]
       \<and> settled (deviceSetupInputReceived i2 (deviceSetupInputReceived i1 st))
           = settled (deviceSetupInputReceived i1 st)
       \<and> errorLog (deviceSetupInputReceived i2 (deviceSetupInputReceived i1 st))
           = errorLog st @ [''Received device setup input, but no callback exists.'']"
proof -
  let ?s1 = "deviceSetupInputReceived i1 st"
  have slot: "deviceSetupCallback ?s1 = None"
    by (simp add: deviceSetupInputReceived_pending [OF assms])
  have first: "settled ?s1 = settled st @ [deviceSetupCallback_invoke cb i1]"
    by (simp add: deviceSetupInputReceived_pending [OF assms])
  have log1: "errorLog ?s1 = errorLog st"
    by (simp add: deviceSetupInputReceived_pending [OF assms] dispatch_fields)
  have second: "settled (deviceSetupInputReceived i2 ?s1) = settled ?s1"
    by (simp add: deviceSetupInputReceived_idle [OF slot] logger_error_def dispatch_fields)
  have log2: "errorLog (deviceSetupInputReceived i2 ?s1)
                = errorLog ?s1 @ [''Received device setup input, but no callback exists.'']"
    by (simp add: deviceSetupInputReceived_idle [OF slot] logger_error_def dispatch_fields)
  from slot first second log2 log1 show ?thesis by simp
qed

theorem deviceSetupCallback_invoked_once_witness:
  "deviceSetupCallback (getDeviceSetupUserInput ''Erase device?'' None initialState)
     = Some (Callback None)
   \<and> settled (deviceSetupInputReceived (JSBool True)
        (deviceSetupInputReceived (JSBool True)
           (getDeviceSetupUserInput ''Erase device?'' None initialState)))
     = [Resolved (JSBool True)]
   \<and> errorLog (deviceSetupInputReceived (JSBool True)
        (deviceSetupInputReceived (JSBool True)
           (getDeviceSetupUserInput ''Erase device?'' None initialState)))
     = [''Received device setup input, but no callback exists.'']"
proof -
  have slot: "deviceSetupCallback (getDeviceSetupUserInput ''Erase device?'' None initialState)
                = Some (Callback None)"
    by (simp add: getDeviceSetupUserInput_def dispatch_fields)
  have s0: "settled (getDeviceSetupUserInput ''Erase device?'' None initialState) = []"
    by (simp add: getDeviceSetupUserInput_def dispatch_fields initialState_def)
  have l0: "errorLog (getDeviceSetupUserInput ''Erase device?'' None initialState) = []"
    by (simp add: getDeviceSetupUserInput_def dispatch_fields initialState_def)
  from deviceSetupCallback_invoked_once [OF slot, of "JSBool True" "JSBool True"] slot s0 l0
  show ?thesis by simp
qed

section \<open>Helper lemmas: what each operation leaves alone\<close>

lemma error_message_raises:
  "error_message error = Inl raised \<Longrightarrow> raised = TypeError"
  by (induction error rule: error_message.induct) simp_all

lemma stopWatchingDevices_returns:
  assumes "stopErrorReadable env st"
  shows "\<exists>st'. stopWatchingDevices env st = Inr st'
     \<and> dispatched st' = dispatched st
     \<and> selectedSerialNumber st' = selectedSerialNumber st
     \<and> settled st' = settled st
     \<and> hotplugTaskId st' = hotplugTaskId st
     \<and> deviceSetupCallback st' = deviceSetupCallback st
     \<and> providerCalls st' = providerCalls st @
          (if deviceLibContext env then [StopHotplugEvents (hotplugTaskId st)] else [])"
  using assms
  by (auto simp add: stopWatchingDevices_def stopHotplugEvents_def stopErrorReadable_def
        messageReadable_def logger_error_def Let_def
        split: option.splits sum.splits if_splits)


lemma stopWatchingDevices_raises:
  assumes "\<not> stopErrorReadable env st"
  shows "\<exists>st'. stopWatchingDevices env st = Inl (TypeError, st')
     \<and> dispatched st' = dispatched st
     \<and> errorLog st' = errorLog st"
proof -
  from assms have ctx: "deviceLibContext env"
    by (simp add: stopErrorReadable_def split: if_splits)
  from assms ctx obtain error where
    thrown: "stopHotplugEventsThrows env (hotplugTaskId st) (subscriptions st) = Some error"
    and unreadable: "\<not> messageReadable error"
    by (auto simp add: stopErrorReadable_def split: option.splits)
  from unreadable obtain raised where raised: "error_message error = Inl raised"
    by (auto simp add: messageReadable_def split: sum.splits)
  then have "raised = TypeError" by (rule error_message_raises)
  with raised ctx thrown show ?thesis
    by (simp add: stopWatchingDevices_def stopHotplugEvents_def Let_def)
qed

lemma stopErrorReadable_dispatch:
  "stopErrorReadable env (dispatch a st) = stopErrorReadable env st"
  by (simp add: stopErrorReadable_def dispatch_fields)

lemma getDeviceSetupUserInput_fields:
  "hotplugTaskId (getDeviceSetupUserInput msg cs st) = hotplugTaskId st"
  "deviceSetupCallback (getDeviceSetupUserInput msg cs st) = Some (Callback cs)"
  "dispatched (getDeviceSetupUserInput msg cs st)
     = dispatched st @ [DEVICE_SETUP_INPUT_REQUIRED msg cs]"
  "selectedSerialNumber (getDeviceSetupUserInput msg cs st) = selectedSerialNumber st"
  "errorLog (getDeviceSetupUserInput msg cs st) = errorLog st"
  "settled (getDeviceSetupUserInput msg cs st) = settled st"
  "providerCalls (getDeviceSetupUserInput msg cs st) = providerCalls st"
  "subscriptions (getDeviceSetupUserInput msg cs st) = subscriptions st"
  by (simp_all add: getDeviceSetupUserInput_def dispatch_def selectionReducer_def)

lemma deviceSetupInputReceived_fields:
  "hotplugTaskId (deviceSetupInputReceived input st) = hotplugTaskId st"
  "dispatched (deviceSetupInputReceived input st)
     = dispatched st @ [DEVICE_SETUP_INPUT_RECEIVED input]"
  "selectedSerialNumber (deviceSetupInputReceived input st) = selectedSerialNumber st"
  "providerCalls (deviceSetupInputReceived input st) = providerCalls st"
  "subscriptions (deviceSetupInputReceived input st) = subscriptions st"
  by (simp_all add: deviceSetupInputReceived_def dispatch_def selectionReducer_def
        logger_error_def Let_def split: option.split)

lemma prepareDevice_run:
  "fst (prepareDevice procedure inputs st) = procedureOutcome procedure inputs
   \<and> dispatched (snd (prepareDevice procedure inputs st))
       = dispatched st @ promptActions procedure inputs
   \<and> selectedSerialNumber (snd (prepareDevice procedure inputs st)) = selectedSerialNumber st
   \<and> providerCalls (snd (prepareDevice procedure inputs st)) = providerCalls st
   \<and> subscriptions (snd (prepareDevice procedure inputs st)) = subscriptions st
   \<and> hotplugTaskId (snd (prepareDevice procedure inputs st)) = hotplugTaskId st"
proof (induction procedure arbitrary: inputs st)
  case (Finish result)
  show ?case by simp
next
  case (Prompt msg cs continue)
  show ?case
  proof (cases inputs)
    case Nil
    then show ?thesis by (simp add: Let_def getDeviceSetupUserInput_fields)
  next
    case (Cons input rest)
    let ?next = "continue (deviceSetupCallback_invoke (Callback cs) input)"
    have "?next \<in> range continue" by (rule rangeI)
    note IH = Prompt.IH [OF this,
      of rest "deviceSetupInputReceived input (getDeviceSetupUserInput msg cs st)"]
    with Cons show ?thesis
      by (simp add: Let_def getDeviceSetupUserInput_fields deviceSetupInputReceived_fields)
  qed
qed


section \<open>Stopping the watcher\<close>




section \<open>Selecting a device when no setup is configured\<close>

text \<open>
  C9. When the configuration declares no setup procedure, \<^verbatim>\<open>selectAndSetupDevice\<close>
  resolves after dispatching exactly one action, \<^verbatim>\<open>DEVICE_SELECTED\<close> with the given device
  (which makes it the selection). Nothing else changes: the library is not called, so the
  watcher is neither stopped nor restarted, and no setup action is dispatched.
\<close>

theorem selectAndSetupDevice_without_setup:
  assumes "deviceSetup config = None"
  shows "selectAndSetupDevice env config procedure inputs dev st =
           (Resolved (),
            st\<lparr> dispatched := dispatched st @ [DEVICE_SELECTED dev],
                selectedSerialNumber := Some (serialNumber dev) \<rparr>)"
  using assms
  by (simp add: selectAndSetupDevice_def dispatch_def selectionReducer_def Let_def)

theorem selectAndSetupDevice_without_setup_witness:
  "deviceSetup noSetupConfig = None
   \<and> selectAndSetupDevice quietEnv noSetupConfig flashFails [] deviceA watchingState =
       (Resolved (),
        watchingState\<lparr> dispatched := [DEVICE_SELECTED deviceA],
                       selectedSerialNumber := Some ''A'' \<rparr>)"
proof -
  have none: "deviceSetup noSetupConfig = None" by (simp add: noSetupConfig_def)
  from selectAndSetupDevice_without_setup [OF none, of quietEnv flashFails "[]" deviceA watchingState]
  show ?thesis
    by (simp add: none watchingState_def initialState_def deviceA_def)
qed

section \<open>Input with no request pending\<close>

text \<open>
  C6, as the code has it. When no input request is pending, \<^verbatim>\<open>deviceSetupInputReceived\<close>
  still dispatches \<^verbatim>\<open>DEVICE_SETUP_INPUT_RECEIVED\<close> with the input, then logs the error;
  nothing else changes (the input slot, the task id, the selection, the settled responses
  and the library are untouched).
\<close>

theorem deviceSetupInputReceived_no_request:
  assumes "deviceSetupCallback st = None"
  shows "deviceSetupInputReceived input st =
           st\<lparr> dispatched := dispatched st @ [DEVICE_SETUP_INPUT_RECEIVED input],
               errorLog := errorLog st
                 @ [''Received device setup input, but no callback exists.''] \<rparr>"
  using assms
  by (simp add: deviceSetupInputReceived_def dispatch_def selectionReducer_def
        logger_error_def Let_def)

theorem deviceSetupInputReceived_no_request_witness:
  "deviceSetupCallback initialState = None
   \<and> deviceSetupInputReceived (JSString ''DFU'') initialState =
       initialState\<lparr> dispatched := [DEVICE_SETUP_INPUT_RECEIVED (JSString ''DFU'')],
                     errorLog := [''Received device setup input, but no callback exists.''] \<rparr>"
proof -
  have none: "deviceSetupCallback initialState = None" by (simp add: initialState_def)
  from deviceSetupInputReceived_no_request [OF none, of "JSString ''DFU''"]
  show ?thesis by (simp add: none initialState_def)
qed

text \<open>
  C6 as stated fails: with no request pending, the input \<^verbatim>\<open>"DFU"\<close> does put an action on
  the store.
\<close>

theorem deviceSetupInputReceived_no_request_counterexample:
  "deviceSetupCallback initialState = None
   \<and> dispatched (deviceSetupInputReceived (JSString ''DFU'') initialState)
       \<noteq> dispatched initialState"
  by (simp add: deviceSetupInputReceived_def dispatch_def selectionReducer_def
        logger_error_def Let_def initialState_def)

section \<open>Settling a request\<close>

text \<open>
  C5, as the code has it. The input given after a request settles that request's
  response. When the request was made without choices the response is always resolved,
  with \<^verbatim>\<open>true\<close> for a truthy input and \<^verbatim>\<open>false\<close> for a falsy one, and is never rejected.
  When it was made with choices, a truthy input resolves it with that value and a falsy or
  absent input rejects it with \<^verbatim>\<open>Cancelled by user.\<close>
\<close>

theorem getDeviceSetupUserInput_settlement:
  "settled (deviceSetupInputReceived input (getDeviceSetupUserInput msg cs st)) =
     settled st @
       [if cs = None then Resolved (JSBool (truthy input))
        else if truthy input then Resolved input
        else Rejected (Error ''Cancelled by user.'')]"
  by (simp add: deviceSetupInputReceived_pending [OF getDeviceSetupUserInput_fields(2)]
        getDeviceSetupUserInput_fields)

theorem getDeviceSetupUserInput_settlement_witness:
  "settled (deviceSetupInputReceived (JSString ''DFU'')
      (getDeviceSetupUserInput ''Pick mode'' (Some [''DFU'', ''Normal'']) initialState))
     = [Resolved (JSString ''DFU'')]
   \<and> settled (deviceSetupInputReceived JSUndefined
      (getDeviceSetupUserInput ''Pick mode'' (Some [''DFU'', ''Normal'']) initialState))
     = [Rejected (Error ''Cancelled by user.'')]
   \<and> settled (deviceSetupInputReceived (JSBool False)
      (getDeviceSetupUserInput ''Erase device?'' None initialState))
     = [Resolved (JSBool False)]"
  using getDeviceSetupUserInput_settlement
          [of "JSString ''DFU''" "''Pick mode''" "Some [''DFU'', ''Normal'']" initialState]
        getDeviceSetupUserInput_settlement
          [of JSUndefined "''Pick mode''" "Some [''DFU'', ''Normal'']" initialState]
        getDeviceSetupUserInput_settlement
          [of "JSBool False" "''Erase device?''" None initialState]
  by (simp add: initialState_def)

text \<open>
  C5 as stated fails: a confirmation request answered with \<^verbatim>\<open>false\<close> is not rejected.
\<close>

theorem confirmation_declined_counterexample:
  "\<not> is_Rejected (last (settled (deviceSetupInputReceived (JSBool False)
        (getDeviceSetupUserInput ''Erase device?'' None initialState))))"
  by (simp add: deviceSetupInputReceived_def getDeviceSetupUserInput_def dispatch_def
        selectionReducer_def Let_def initialState_def)

section \<open>Applying an enumeration\<close>

lemma wrapDevice_serialNumber:
  "serialNumber (wrapDevice camelcaseKeys dev) = serialNumber (camelcaseKeys dev)"
  by (simp add: wrapDevice_def Let_def)

lemma find_serialNumber_None:
  "(find (\<lambda>d. serialNumber d = selected) (wrapDevices camelcaseKeys found) = None)
     = (selected \<notin> set (map (\<lambda>r. serialNumber (camelcaseKeys r)) found))"
  by (auto simp add: find_None_iff wrapDevices_def wrapDevice_serialNumber)

text \<open>
  C4. When an enumeration result is applied, \<^verbatim>\<open>DEVICES_DETECTED\<close> with the wrapped devices
  is dispatched last. If a serial number is selected and no enumerated device has it,
  \<^verbatim>\<open>DEVICE_DESELECTED\<close> is dispatched just before; if the selected device is among them, or
  nothing is selected, \<^verbatim>\<open>DEVICES_DETECTED\<close> is the only action.
\<close>

theorem updateDeviceList_deselects_first:
  "\<exists>st'. updateDeviceList_continue camelcaseKeys (Inr found) st = Inr st'
     \<and> dispatched st' = dispatched st @
         (case selectedSerialNumber st of
            None \<Rightarrow> [DEVICES_DETECTED (wrapDevices camelcaseKeys found)]
          | Some selected \<Rightarrow>
              if selected \<in> set (map (\<lambda>r. serialNumber (camelcaseKeys r)) found)
              then [DEVICES_DETECTED (wrapDevices camelcaseKeys found)]
              else [DEVICE_DESELECTED, DEVICES_DETECTED (wrapDevices camelcaseKeys found)])"
  by (simp add: updateDeviceList_continue_def Let_def dispatch_fields
        find_serialNumber_None split: option.split)

theorem updateDeviceList_deselects_first_witness:
  "\<exists>st'. updateDeviceList_continue (\<lambda>r. r) (Inr [rawB])
            (watchingState\<lparr> selectedSerialNumber := Some ''A'' \<rparr>) = Inr st'
     \<and> dispatched st' = [DEVICE_DESELECTED, DEVICES_DETECTED (wrapDevices (\<lambda>r. r) [rawB])]"
  using updateDeviceList_deselects_first
          [of "\<lambda>r. r" "[rawB]" "watchingState\<lparr> selectedSerialNumber := Some ''A'' \<rparr>"]
  by (simp add: watchingState_def initialState_def rawB_def)

section \<open>Starting the watcher twice\<close>

lemma startWatchingDevices_fields:
  "subscriptions (startWatchingDevices camelcaseKeys (Inr found) (Inr h) st)
     = subscriptions st @ [h]"
  "hotplugTaskId (startWatchingDevices camelcaseKeys (Inr found) (Inr h) st) = Some h"
  "providerCalls (startWatchingDevices camelcaseKeys (Inr found) (Inr h) st)
     = providerCalls st @ [Enumerate, StartHotplugEvents]"
  by (simp_all add: startWatchingDevices_def startWatchingDevices_continue_def
        startWatchingDevices_begin_def updateDeviceList_call_def
        updateDeviceList_continue_def startHotplugEvents_def Let_def dispatch_fields
        split: option.split)

text \<open>
  C3, as the code has it. \<^verbatim>\<open>startWatchingDevices\<close> never tears a subscription down. After
  two successful starts with no stop in between, the library has been asked to enumerate
  and to start hotplug events twice and never to stop them, both subscriptions are live,
  and only the second task id is remembered.
\<close>

theorem startWatchingDevices_twice:
  "subscriptions (startWatchingDevices camelcaseKeys (Inr found2) (Inr h2)
       (startWatchingDevices camelcaseKeys (Inr found1) (Inr h1) st))
     = subscriptions st @ [h1, h2]
   \<and> hotplugTaskId (startWatchingDevices camelcaseKeys (Inr found2) (Inr h2)
       (startWatchingDevices camelcaseKeys (Inr found1) (Inr h1) st)) = Some h2
   \<and> providerCalls (startWatchingDevices camelcaseKeys (Inr found2) (Inr h2)
       (startWatchingDevices camelcaseKeys (Inr found1) (Inr h1) st))
     = providerCalls st @ [Enumerate, StartHotplugEvents, Enumerate, StartHotplugEvents]"
  by (simp add: startWatchingDevices_fields)

theorem startWatchingDevices_twice_witness:
  "subscriptions (startWatchingDevices (\<lambda>r. r) (Inr []) (Inr 8)
       (startWatchingDevices (\<lambda>r. r) (Inr [rawB]) (Inr 7) initialState)) = [7, 8]
   \<and> hotplugTaskId (startWatchingDevices (\<lambda>r. r) (Inr []) (Inr 8)
       (startWatchingDevices (\<lambda>r. r) (Inr [rawB]) (Inr 7) initialState)) = Some 8"
  using startWatchingDevices_twice [of "\<lambda>r. r" "[]" 8 "[rawB]" 7 initialState]
  by (simp add: initialState_def)

text \<open>
  C3 as stated fails: two starts in a row, answered by the library with task ids 1 and
  2, leave more than one subscription live, and the first was never stopped.
\<close>

theorem startWatchingDevices_twice_counterexample:
  "\<not> length (subscriptions (startWatchingDevices (\<lambda>r. r) (Inr [rawB]) (Inr 2)
        (startWatchingDevices (\<lambda>r. r) (Inr [rawB]) (Inr 1) initialState))) \<le> 1
   \<and> StopHotplugEvents (Some 1) \<notin> set (providerCalls
        (startWatchingDevices (\<lambda>r. r) (Inr [rawB]) (Inr 2)
           (startWatchingDevices (\<lambda>r. r) (Inr [rawB]) (Inr 1) initialState)))"
  by (simp add: startWatchingDevices_fields initialState_def)

section \<open>Setting up a device\<close>

lemma startWatchingDevices_begin_fields:
  "hotplugTaskId (startWatchingDevices_begin st) = hotplugTaskId st"
  "deviceSetupCallback (startWatchingDevices_begin st) = deviceSetupCallback st"
  "dispatched (startWatchingDevices_begin st) = dispatched st"
  "selectedSerialNumber (startWatchingDevices_begin st) = selectedSerialNumber st"
  "errorLog (startWatchingDevices_begin st) = errorLog st"
  "settled (startWatchingDevices_begin st) = settled st"
  "providerCalls (startWatchingDevices_begin st) = providerCalls st @ [Enumerate]"
  "subscriptions (startWatchingDevices_begin st) = subscriptions st"
  by (simp_all add: startWatchingDevices_begin_def updateDeviceList_call_def)

lemma dispatch_selection:
  "selectedSerialNumber (dispatch (DEVICE_SELECTED d) st) = Some (serialNumber d)"
  "selectedSerialNumber (dispatch DEVICE_DESELECTED st) = None"
  "selectedSerialNumber (dispatch (DEVICE_SETUP_COMPLETE d) st) = selectedSerialNumber st"
  "selectedSerialNumber (dispatch (DEVICE_SETUP_ERROR d e) st) = selectedSerialNumber st"
  by (simp_all add: dispatch_def selectionReducer_def)


text \<open>Up to the setup itself: the device is selected and the watcher stopped.\<close>

lemma selectAndSetupDevice_stops:
  assumes cfg: "deviceSetup config = Some opts"
      and store: "dispatchUndefinedThrows env = None"
      and stop: "stopErrorReadable env st"
  shows "\<exists>st2. dispatched st2 = dispatched st @ [DEVICE_SELECTED dev]
           \<and> selectedSerialNumber st2 = Some (serialNumber dev)
           \<and> hotplugTaskId st2 = hotplugTaskId st
           \<and> providerCalls st2 = providerCalls st @
                (if deviceLibContext env then [StopHotplugEvents (hotplugTaskId st)] else [])
           \<and> selectAndSetupDevice env config procedure inputs dev st =
               (case releaseCurrentDevice config of
                  None \<Rightarrow> setupDevice opts procedure inputs dev st2
                | Some Pending \<Rightarrow> (Pending, st2)
                | Some (Rejected error) \<Rightarrow> (Rejected error, st2)
                | Some (Resolved u) \<Rightarrow> setupDevice opts procedure inputs dev st2)"
proof -
  let ?st1 = "dispatch (DEVICE_SELECTED dev) st"
  from stop have "stopErrorReadable env ?st1"
    by (simp add: stopErrorReadable_dispatch)
  from stopWatchingDevices_returns [OF this]
  obtain st2 where stopped: "stopWatchingDevices env ?st1 = Inr st2"
    and d: "dispatched st2 = dispatched ?st1"
    and s: "selectedSerialNumber st2 = selectedSerialNumber ?st1"
    and h: "hotplugTaskId st2 = hotplugTaskId ?st1"
    and p: "providerCalls st2 = providerCalls ?st1 @
              (if deviceLibContext env then [StopHotplugEvents (hotplugTaskId ?st1)] else [])"
    by blast
  have run: "selectAndSetupDevice env config procedure inputs dev st =
               (case releaseCurrentDevice config of
                  None \<Rightarrow> setupDevice opts procedure inputs dev st2
                | Some Pending \<Rightarrow> (Pending, st2)
                | Some (Rejected error) \<Rightarrow> (Rejected error, st2)
                | Some (Resolved u) \<Rightarrow> setupDevice opts procedure inputs dev st2)"
    using cfg store stopped by (simp add: selectAndSetupDevice_def Let_def)
  from d s h p run show ?thesis
    by (intro exI [of _ st2]) (simp add: dispatch_fields dispatch_selection)
qed


text \<open>
  The other case: a custom device is not permitted and the message of the value caught
  cannot be read. \<^verbatim>\<open>DEVICE_SETUP_ERROR\<close> has been dispatched; the rest of the \<^verbatim>\<open>catch\<close>
  block is skipped.
\<close>

lemma setupDevice_rejected_unreadable:
  assumes fails: "procedureOutcome procedure inputs = Rejected error"
      and strict: "\<not> truthy (deviceSetupConfig_allowCustomDevice opts)"
      and unreadable: "\<not> messageReadable error"
  shows "\<exists>st'. setupDevice opts procedure inputs dev st = (Rejected TypeError, st')
     \<and> dispatched st' = dispatched st @ promptActions procedure inputs
         @ [DEVICE_SETUP_ERROR dev error]
     \<and> selectedSerialNumber st' = selectedSerialNumber st
     \<and> providerCalls st' = providerCalls st"
proof -
  obtain r st1 where pd: "prepareDevice procedure inputs st = (r, st1)"
    by (cases "prepareDevice procedure inputs st")
  from prepareDevice_run [of procedure inputs st] pd fails
  have r: "r = Rejected error"
    and d: "dispatched st1 = dispatched st @ promptActions procedure inputs"
    and s: "selectedSerialNumber st1 = selectedSerialNumber st"
    and p: "providerCalls st1 = providerCalls st"
    by simp_all
  from unreadable obtain raised where raised: "error_message error = Inl raised"
    by (auto simp add: messageReadable_def split: sum.splits)
  then have "raised = TypeError" by (rule error_message_raises)
  with raised strict show ?thesis
    by (simp add: setupDevice_def pd r d s p Let_def dispatch_fields dispatch_selection)
qed

lemma setupDevice_resolved:
  assumes "procedureOutcome procedure inputs = Resolved preparedDevice"
  shows "\<exists>st'. setupDevice opts procedure inputs dev st = (Resolved (), st')
     \<and> dispatched st' = dispatched st @ promptActions procedure inputs
         @ [DEVICE_SETUP_COMPLETE preparedDevice]
     \<and> selectedSerialNumber st' = selectedSerialNumber st
     \<and> hotplugTaskId st' = hotplugTaskId st
     \<and> providerCalls st' = providerCalls st @ [Enumerate]"
proof -
  obtain r st1 where pd: "prepareDevice procedure inputs st = (r, st1)"
    by (cases "prepareDevice procedure inputs st")
  from prepareDevice_run [of procedure inputs st] pd assms
  have r: "r = Resolved preparedDevice"
    and d: "dispatched st1 = dispatched st @ promptActions procedure inputs"
    and s: "selectedSerialNumber st1 = selectedSerialNumber st"
    and p: "providerCalls st1 = providerCalls st"
    and h: "hotplugTaskId st1 = hotplugTaskId st"
    by simp_all
  show ?thesis
    by (simp add: setupDevice_def pd r d s p h Let_def startWatchingDevices_begin_fields
          dispatch_fields dispatch_selection)
qed

lemma startWatchingDevices_continue_fields:
  "hotplugTaskId (startWatchingDevices_continue camelcaseKeys (Inr found) (Inr h) st) = Some h"
  "subscriptions (startWatchingDevices_continue camelcaseKeys (Inr found) (Inr h) st)
     = subscriptions st @ [h]"
  by (simp_all add: startWatchingDevices_continue_def updateDeviceList_continue_def
        startHotplugEvents_def Let_def dispatch_fields split: option.split)

text \<open>
  A stop that raises ends the thunk at once: \<^verbatim>\<open>dispatch(stopWatchingDevices())\<close> stands
  outside the \<^verbatim>\<open>try\<close> block.
\<close>

lemma selectAndSetupDevice_stop_raises:
  assumes cfg: "deviceSetup config = Some opts"
      and raises: "\<not> stopErrorReadable env st"
  shows "\<exists>st'. selectAndSetupDevice env config procedure inputs dev st = (Rejected TypeError, st')
     \<and> dispatched st' = dispatched st @ [DEVICE_SELECTED dev]"
proof -
  let ?st1 = "dispatch (DEVICE_SELECTED dev) st"
  from raises have "\<not> stopErrorReadable env ?st1"
    by (simp add: stopErrorReadable_dispatch)
  from stopWatchingDevices_raises [OF this]
  obtain st2 where raised: "stopWatchingDevices env ?st1 = Inl (TypeError, st2)"
    and d: "dispatched st2 = dispatched ?st1"
    by blast
  have "selectAndSetupDevice env config procedure inputs dev st = (Rejected TypeError, st2)"
    using cfg raised by (simp add: selectAndSetupDevice_def Let_def)
  with d show ?thesis
    by (intro exI [of _ st2]) (simp add: dispatch_fields)
qed

text \<open>
  A store that throws on the valueless dispatch of the stop ends the thunk there: the
  watcher has been asked to stop and nothing follows.
\<close>

lemma selectAndSetupDevice_store_rejects:
  assumes cfg: "deviceSetup config = Some opts"
      and store: "dispatchUndefinedThrows env = Some error"
      and stop: "stopErrorReadable env st"
  shows "\<exists>st'. selectAndSetupDevice env config procedure inputs dev st = (Rejected error, st')
     \<and> dispatched st' = dispatched st @ [DEVICE_SELECTED dev]
     \<and> providerCalls st' = providerCalls st
         @ (if deviceLibContext env then [StopHotplugEvents (hotplugTaskId st)] else [])"
proof -
  let ?st1 = "dispatch (DEVICE_SELECTED dev) st"
  from stop have "stopErrorReadable env ?st1"
    by (simp add: stopErrorReadable_dispatch)
  from stopWatchingDevices_returns [OF this]
  obtain st2 where stopped: "stopWatchingDevices env ?st1 = Inr st2"
    and d: "dispatched st2 = dispatched ?st1"
    and p: "providerCalls st2 = providerCalls ?st1 @
              (if deviceLibContext env then [StopHotplugEvents (hotplugTaskId ?st1)] else [])"
    by blast
  have "selectAndSetupDevice env config procedure inputs dev st = (Rejected error, st2)"
    using cfg store stopped by (simp add: selectAndSetupDevice_def Let_def)
  with d p show ?thesis
    by (intro exI [of _ st2]) (simp add: dispatch_fields)
qed

text \<open>
  When the setup procedure resolves, the restart is begun and \<^verbatim>\<open>DEVICE_SETUP_COMPLETE\<close>
  with the prepared device is dispatched.
\<close>

lemma selectAndSetupDevice_setup_succeeds:
  assumes cfg: "deviceSetup config = Some opts"
      and store: "dispatchUndefinedThrows env = None"
      and stop: "stopErrorReadable env st"
      and release: "releaseCurrentDevice config = None
                    \<or> releaseCurrentDevice config = Some (Resolved ())"
      and succeeds: "procedureOutcome procedure inputs = Resolved preparedDevice"
  shows "\<exists>st'. selectAndSetupDevice env config procedure inputs dev st = (Resolved (), st')
     \<and> dispatched st' = dispatched st @ [DEVICE_SELECTED dev]
         @ promptActions procedure inputs
         @ [DEVICE_SETUP_COMPLETE preparedDevice]
     \<and> providerCalls st' = providerCalls st
         @ (if deviceLibContext env then [StopHotplugEvents (hotplugTaskId st)] else [])
         @ [Enumerate]"
proof -
  from selectAndSetupDevice_stops [OF cfg store stop, of dev procedure inputs]
  obtain st2 where d2: "dispatched st2 = dispatched st @ [DEVICE_SELECTED dev]"
    and p2: "providerCalls st2 = providerCalls st @
               (if deviceLibContext env then [StopHotplugEvents (hotplugTaskId st)] else [])"
    and run: "selectAndSetupDevice env config procedure inputs dev st =
               (case releaseCurrentDevice config of
                  None \<Rightarrow> setupDevice opts procedure inputs dev st2
                | Some Pending \<Rightarrow> (Pending, st2)
                | Some (Rejected error) \<Rightarrow> (Rejected error, st2)
                | Some (Resolved u) \<Rightarrow> setupDevice opts procedure inputs dev st2)"
    by blast
  from run release
  have run': "selectAndSetupDevice env config procedure inputs dev st =
                setupDevice opts procedure inputs dev st2"
    by auto
  from setupDevice_resolved [OF succeeds, of opts dev st2]
  obtain st' where fin: "setupDevice opts procedure inputs dev st2 = (Resolved (), st')"
    and d: "dispatched st' = dispatched st2 @ promptActions procedure inputs
         @ [DEVICE_SETUP_COMPLETE preparedDevice]"
    and p: "providerCalls st' = providerCalls st2 @ [Enumerate]"
    by blast
  show ?thesis
    by (intro exI [of _ st']) (simp add: run' fin d p d2 p2)
qed





section \<open>A release step that fails\<close>

text \<open>
  \<^verbatim>\<open>await config.releaseCurrentDevice()\<close> stands before the \<^verbatim>\<open>try\<close> block, after the
  watcher has been stopped. The two theorems below evaluate that path.
\<close>

text \<open>
  C1, where the code departs from it. When a setup is configured, the stop has returned
  and the release step rejects, \<^verbatim>\<open>selectAndSetupDevice\<close> rejects with that error: the
  only call made to the library is the stop, no start is begun, and the remembered task
  id is the one of the stopped subscription.
\<close>

theorem release_failure_leaves_watcher_stopped:
  assumes cfg: "deviceSetup config = Some opts"
      and store: "dispatchUndefinedThrows env = None"
      and stop: "stopErrorReadable env st"
      and release: "releaseCurrentDevice config = Some (Rejected error)"
  shows "\<exists>st'. selectAndSetupDevice env config procedure inputs dev st = (Rejected error, st')
     \<and> providerCalls st' = providerCalls st
         @ (if deviceLibContext env then [StopHotplugEvents (hotplugTaskId st)] else [])
     \<and> hotplugTaskId st' = hotplugTaskId st"
proof -
  from selectAndSetupDevice_stops [OF cfg store stop, of dev procedure inputs]
  obtain st2 where h2: "hotplugTaskId st2 = hotplugTaskId st"
    and p2: "providerCalls st2 = providerCalls st @
               (if deviceLibContext env then [StopHotplugEvents (hotplugTaskId st)] else [])"
    and run: "selectAndSetupDevice env config procedure inputs dev st =
               (case releaseCurrentDevice config of
                  None \<Rightarrow> setupDevice opts procedure inputs dev st2
                | Some Pending \<Rightarrow> (Pending, st2)
                | Some (Rejected error) \<Rightarrow> (Rejected error, st2)
                | Some (Resolved u) \<Rightarrow> setupDevice opts procedure inputs dev st2)"
    by blast
  show ?thesis
    by (intro exI [of _ st2]) (simp add: run release h2 p2)
qed

theorem release_failure_leaves_watcher_stopped_witness:
  "deviceSetup releaseFailsConfig = Some \<lparr> allowCustomDevice = None \<rparr>
   \<and> dispatchUndefinedThrows quietEnv = None
   \<and> stopErrorReadable quietEnv watchingState
   \<and> releaseCurrentDevice releaseFailsConfig = Some (Rejected (Error ''port busy''))
   \<and> (\<exists>st'. selectAndSetupDevice quietEnv releaseFailsConfig (Finish (Resolved deviceA)) []
               deviceA watchingState = (Rejected (Error ''port busy''), st')
          \<and> providerCalls st' = [StopHotplugEvents (Some 1)]
          \<and> hotplugTaskId st' = Some 1
          \<and> subscriptions st' = [])"
proof -
  have c: "deviceSetup releaseFailsConfig = Some \<lparr> allowCustomDevice = None \<rparr>"
    by (simp add: releaseFailsConfig_def)
  have t: "dispatchUndefinedThrows quietEnv = None"
    by (simp add: quietEnv_def)
  have r: "releaseCurrentDevice releaseFailsConfig = Some (Rejected (Error ''port busy''))"
    by (simp add: releaseFailsConfig_def)
  have q: "stopErrorReadable quietEnv watchingState"
    by (simp add: stopErrorReadable_def quietEnv_def)
  from release_failure_leaves_watcher_stopped
         [OF c t q r, of "Finish (Resolved deviceA)" "[]" deviceA]
  have stopped:
    "\<exists>st'. selectAndSetupDevice quietEnv releaseFailsConfig (Finish (Resolved deviceA)) []
               deviceA watchingState = (Rejected (Error ''port busy''), st')
          \<and> providerCalls st' = [StopHotplugEvents (Some 1)]
          \<and> hotplugTaskId st' = Some 1
          \<and> subscriptions st' = []"
    by (simp add: selectAndSetupDevice_def stopWatchingDevices_def
          stopHotplugEvents_def dispatch_def quietEnv_def watchingState_def
          initialState_def releaseFailsConfig_def Let_def)
  from c t q r stopped show ?thesis by simp
qed

text \<open>
  C2, where the code departs from it. When a setup is configured, the stop has returned
  and the release step rejects, the error is not caught: the promise returned to the caller is rejected with
  it, and the only action dispatched is \<^verbatim>\<open>DEVICE_SELECTED\<close>; no \<^verbatim>\<open>DEVICE_SETUP_ERROR\<close>
  reports it.
\<close>

theorem release_failure_propagates:
  assumes cfg: "deviceSetup config = Some opts"
      and store: "dispatchUndefinedThrows env = None"
      and stop: "stopErrorReadable env st"
      and release: "releaseCurrentDevice config = Some (Rejected error)"
  shows "\<exists>st'. selectAndSetupDevice env config procedure inputs dev st = (Rejected error, st')
     \<and> dispatched st' = dispatched st @ [DEVICE_SELECTED dev]"
proof -
  from selectAndSetupDevice_stops [OF cfg store stop, of dev procedure inputs]
  obtain st2 where d2: "dispatched st2 = dispatched st @ [DEVICE_SELECTED dev]"
    and run: "selectAndSetupDevice env config procedure inputs dev st =
               (case releaseCurrentDevice config of
                  None \<Rightarrow> setupDevice opts procedure inputs dev st2
                | Some Pending \<Rightarrow> (Pending, st2)
                | Some (Rejected error) \<Rightarrow> (Rejected error, st2)
                | Some (Resolved u) \<Rightarrow> setupDevice opts procedure inputs dev st2)"
    by blast
  show ?thesis
    by (intro exI [of _ st2]) (simp add: run release d2)
qed

theorem release_failure_propagates_witness:
  "deviceSetup releaseFailsConfig = Some \<lparr> allowCustomDevice = None \<rparr>
   \<and> dispatchUndefinedThrows quietEnv = None
   \<and> stopErrorReadable quietEnv initialState
   \<and> releaseCurrentDevice releaseFailsConfig = Some (Rejected (Error ''port busy''))
   \<and> (\<exists>st'. selectAndSetupDevice quietEnv releaseFailsConfig flashFails [JSString ''DFU'']
               deviceA initialState = (Rejected (Error ''port busy''), st')
          \<and> dispatched st' = [DEVICE_SELECTED deviceA])"
proof -
  have c: "deviceSetup releaseFailsConfig = Some \<lparr> allowCustomDevice = None \<rparr>"
    by (simp add: releaseFailsConfig_def)
  have t: "dispatchUndefinedThrows quietEnv = None"
    by (simp add: quietEnv_def)
  have r: "releaseCurrentDevice releaseFailsConfig = Some (Rejected (Error ''port busy''))"
    by (simp add: releaseFailsConfig_def)
  have q: "stopErrorReadable quietEnv initialState"
    by (simp add: stopErrorReadable_def quietEnv_def)
  from release_failure_propagates
         [OF c t q r, of flashFails "[JSString ''DFU'']" deviceA]
  have escaped:
    "\<exists>st'. selectAndSetupDevice quietEnv releaseFailsConfig flashFails [JSString ''DFU'']
               deviceA initialState = (Rejected (Error ''port busy''), st')
          \<and> dispatched st' = [DEVICE_SELECTED deviceA]"
    by (simp add: initialState_def)
  from c t q r escaped show ?thesis by simp
qed

end
